theory Spec2Isabelle
  imports Complex_Main "HOL-Library.Word"
begin

section \<open>Machine numbers\<close>

type_synonym u8 = "8 word"
type_synonym u16 = "16 word"
type_synonym u32 = "32 word"

text \<open>
  An \<open>f64\<close> is a finite value or one of the three special values of IEEE 754.  Finite
  values are carried as reals: rounding and the sign of zero are not represented, a zero
  divisor is read as \<open>+0\<close>.  Every operand the theorems below evaluate is an integer of at
  most 32 bits or a quotient of two such integers.
\<close>

datatype f64 = Finite real | PosInf | NegInf | NaN

fun f64_neg :: "f64 \<Rightarrow> f64" where
  "f64_neg (Finite a) = Finite (- a)"
| "f64_neg PosInf = NegInf"
| "f64_neg NegInf = PosInf"
| "f64_neg NaN = NaN"

fun f64_add :: "f64 \<Rightarrow> f64 \<Rightarrow> f64" where
  "f64_add NaN _ = NaN"
| "f64_add _ NaN = NaN"
| "f64_add (Finite a) (Finite b) = Finite (a + b)"
| "f64_add (Finite a) PosInf = PosInf"
| "f64_add (Finite a) NegInf = NegInf"
| "f64_add PosInf NegInf = NaN"
| "f64_add NegInf PosInf = NaN"
| "f64_add PosInf _ = PosInf"
| "f64_add NegInf _ = NegInf"

definition f64_sub :: "f64 \<Rightarrow> f64 \<Rightarrow> f64" where
  "f64_sub a b = f64_add a (f64_neg b)"

text \<open>The sign of a non-NaN value: \<open>-1\<close>, \<open>0\<close> or \<open>1\<close>.\<close>

fun f64_sign :: "f64 \<Rightarrow> int" where
  "f64_sign (Finite a) = (if a < 0 then - 1 else if a = 0 then 0 else 1)"
| "f64_sign PosInf = 1"
| "f64_sign NegInf = - 1"
| "f64_sign NaN = 0"

definition f64_inf :: "int \<Rightarrow> f64" where
  "f64_inf s = (if s < 0 then NegInf else PosInf)"

fun f64_mul :: "f64 \<Rightarrow> f64 \<Rightarrow> f64" where
  "f64_mul NaN _ = NaN"
| "f64_mul _ NaN = NaN"
| "f64_mul (Finite a) (Finite b) = Finite (a * b)"
| "f64_mul a b =
     (if f64_sign a = 0 \<or> f64_sign b = 0 then NaN else f64_inf (f64_sign a * f64_sign b))"

fun f64_div :: "f64 \<Rightarrow> f64 \<Rightarrow> f64" where
  "f64_div NaN _ = NaN"
| "f64_div _ NaN = NaN"
| "f64_div (Finite a) (Finite b) =
     (if b \<noteq> 0 then Finite (a / b)
      else if a = 0 then NaN
      else if 0 < a then PosInf else NegInf)"
| "f64_div (Finite a) _ = Finite 0"
| "f64_div a (Finite b) = f64_inf (f64_sign a * (if b < 0 then - 1 else 1))"
| "f64_div _ _ = NaN"

text \<open>The comparison \<open>a == 0\<close> of C++: true for a zero, false for every other value.\<close>

definition f64_is_zero :: "f64 \<Rightarrow> bool" where
  "f64_is_zero a = (a = Finite 0)"

definition f64_of_nat :: "nat \<Rightarrow> f64" where
  "f64_of_nat n = Finite (real n)"

definition f64_of_int :: "int \<Rightarrow> f64" where
  "f64_of_int n = Finite (real_of_int n)"

text \<open>Membership in the closed interval \<open>[0, 1]\<close>; false for infinities and NaN.\<close>

fun f64_in_unit :: "f64 \<Rightarrow> bool" where
  "f64_in_unit (Finite a) = (0 \<le> a \<and> a \<le> 1)"
| "f64_in_unit _ = False"

fun f64_finite :: "f64 \<Rightarrow> bool" where
  "f64_finite (Finite a) = True"
| "f64_finite _ = False"


section \<open>Heatmap frames and their normalization\<close>

text \<open>
  \<open>ipts::Heatmap\<close>: the dimensions block and the byte buffer.  The declaration
  (\<open>ipts/data.hpp\<close>) is not among the sources; the fields are the ones
  \<open>Application::process_heatmap\<close> reads, the buffer cells are \<open>u8\<close>
  (\<open>Image<u8>\<close>), and the range bounds are the 8-bit values of the IPTS
  dimensions block.
\<close>

record dimensions =
  dim_height :: u8
  dim_width :: u8
  z_min :: u8
  z_max :: u8

record heatmap =
  dim :: dimensions
  data :: "u8 list"

text \<open>\<open>Image<f64>\<close>: an Eigen array, here its shape and its cells in buffer order.\<close>

record image =
  rows :: nat
  cols :: nat
  cells :: "f64 list"

text \<open>
  One cell of lines 203--210 of \<open>application.hpp\<close>:
  \<open>1.0 - (cast<f64>(u) - z_min) / (z_max - z_min)\<close>, the range bounds already cast to
  \<open>f64\<close>.
\<close>

definition normalize_cell :: "u8 \<Rightarrow> u8 \<Rightarrow> u8 \<Rightarrow> f64" where
  "normalize_cell zmin zmax u =
     (let z_min' = f64_of_nat (unat zmin);
          z_max' = f64_of_nat (unat zmax);
          norm = f64_div (f64_sub (f64_of_nat (unat u)) z_min') (f64_sub z_max' z_min')
      in f64_sub (Finite 1) norm)"

text \<open>
  Lines 193--210: the buffer is mapped as a \<open>rows \<times> cols\<close> array and normalized cell by
  cell into \<open>m_heatmap\<close>, which takes the frame's shape.  The map reads the first
  \<open>rows * cols\<close> bytes of the buffer.
\<close>

definition normalize :: "heatmap \<Rightarrow> image" where
  "normalize hm =
     (let r = unat (dim_height (dim hm));
          c = unat (dim_width (dim hm))
      in \<lparr> rows = r, cols = c,
           cells = map (normalize_cell (z_min (dim hm)) (z_max (dim hm)))
                       (take (r * c) (data hm)) \<rparr>)"



section \<open>Configuration, contacts and stylus samples\<close>

text \<open>
  \<open>core::Config\<close> (\<open>config.hpp\<close>, not among the sources): the fields the application
  reads.  The contact finder's and the DFT estimator's tuning values are consumed by
  their constructors only.
\<close>

record config =
  width :: f64
  height :: f64
  cone_angle :: f64
  cone_distance :: f64
  touch_check_cone :: bool

text \<open>
  \<open>contacts::Contact<f64>\<close>: the tracking index, the centre \<open>mean\<close> (x first), the
  stability flag and the nullable validity (\<open>std::optional<bool>\<close>).
\<close>

record contact =
  index :: nat
  mean :: "f64 \<times> f64"
  stable :: bool
  valid :: "bool option"

text \<open>\<open>ipts::StylusData\<close>; the coordinates are 16-bit device units.\<close>

record stylus_data =
  proximity :: bool
  stylus_contact :: bool
  button :: bool
  rubber :: bool
  stylus_x :: u16
  stylus_y :: u16
  pressure :: u16
  serial :: u32

text \<open>
  Modelled from the spec: the macros \<open>IPTS_MAX_X\<close>, \<open>IPTS_MAX_Y\<close> and \<open>IPTS_DIAGONAL\<close>
  of \<open>ipts/protocol.h\<close>, which is not among the sources.  Section 6 gives the device
  coordinate range as 9600 by 7200 and the diagonal as derived from them.  No theorem
  below depends on the values.
\<close>

definition IPTS_MAX_X :: int where
  "IPTS_MAX_X = 9600"

definition IPTS_MAX_Y :: int where
  "IPTS_MAX_Y = 7200"

definition IPTS_DIAGONAL :: int where
  "IPTS_DIAGONAL = 12000"

text \<open>\<open>std::optional::value_or\<close>.\<close>

fun value_or :: "'a option \<Rightarrow> 'a \<Rightarrow> 'a" where
  "value_or None d = d"
| "value_or (Some v) d = v"

datatype error = Runtime_error string | Parse_error | Undefined_behaviour


section \<open>The application and its collaborators\<close>

text \<open>
  The cone, the contact finder, the DFT estimator and the wire decoder are classes
  whose code is not among the sources.  The application is modelled over any
  implementation of them: \<open>'c\<close>, \<open>'f\<close> and \<open>'d\<close> are the states of the cone, the finder
  and the estimator, \<open>'w\<close> is the type of a DFT window.  The clock the cone consults is
  part of \<open>'c\<close>.  \<open>finder_find\<close> receives the contact vector it overwrites.
\<close>

datatype 'w frame = Heatmap_frame heatmap | Stylus_frame stylus_data | Dft_frame 'w

record ('c, 'f, 'd, 'w) collaborators =
  cone_ctor :: "f64 \<Rightarrow> f64 \<Rightarrow> 'c"
  cone_alive :: "'c \<Rightarrow> bool"
  cone_active :: "'c \<Rightarrow> bool"
  cone_update_position :: "'c \<Rightarrow> f64 \<Rightarrow> f64 \<Rightarrow> 'c"
  cone_update_direction :: "'c \<Rightarrow> f64 \<Rightarrow> f64 \<Rightarrow> 'c"
  cone_check :: "'c \<Rightarrow> f64 \<Rightarrow> f64 \<Rightarrow> bool"
  finder_ctor :: "config \<Rightarrow> 'f"
  finder_find :: "'f \<Rightarrow> image \<Rightarrow> contact list \<Rightarrow> contact list \<times> 'f"
  dft_ctor :: "config \<Rightarrow> 'd"
  dft_input :: "'d \<Rightarrow> 'w \<Rightarrow> 'd"
  dft_get_stylus :: "'d \<Rightarrow> stylus_data"
  parser_decode :: "u8 list \<Rightarrow> 'w frame list \<times> bool"

text \<open>
  The calls the application makes on its collaborators' mutating operations and on its
  own overridable hooks \<open>on_contacts\<close> and \<open>on_stylus\<close> (no-ops in the base class), in
  the order they are made.
\<close>

datatype 'w call =
    Cone_update_position f64 f64
  | Cone_update_direction f64 f64
  | Finder_find image
  | Dft_input 'w
  | On_contacts "contact list"
  | On_stylus stylus_data

record ('c, 'f, 'd, 'w) application =
  m_config :: config
  m_heatmap :: image
  m_finder :: 'f
  m_contacts :: "contact list"
  m_dft :: 'd
  m_cone :: 'c
  calls :: "'w call list"

text \<open>
  The constructor, lines 97--138.  The device information and the metadata are stored
  and logged only.
\<close>

definition Application_ctor ::
  "('c, 'f, 'd, 'w) collaborators \<Rightarrow> config \<Rightarrow> error + ('c, 'f, 'd, 'w) application" where
  "Application_ctor ext cfg =
     (if f64_is_zero (width cfg) \<or> f64_is_zero (height cfg)
      then Inl (Runtime_error ''Invalid config: The screen size is 0!'')
      else Inr \<lparr> m_config = cfg,
                 m_heatmap = \<lparr> rows = 0, cols = 0, cells = [] \<rparr>,
                 m_finder = finder_ctor ext cfg,
                 m_contacts = [],
                 m_dft = dft_ctor ext cfg,
                 m_cone = cone_ctor ext (cone_angle cfg) (cone_distance cfg),
                 calls = [] \<rparr>)"

text \<open>A contact's centre scaled to physical coordinates (lines 278--279, 290--291).\<close>

definition physical :: "config \<Rightarrow> contact \<Rightarrow> f64 \<times> f64" where
  "physical cfg k = (f64_mul (fst (mean k)) (width cfg), f64_mul (snd (mean k)) (height cfg))"

text \<open>The first loop of \<open>update_touch_cone\<close>, lines 273--282.\<close>

fun update_directions ::
  "('c, 'f, 'd, 'w) collaborators \<Rightarrow> config \<Rightarrow> contact list \<Rightarrow> 'c \<times> 'w call list
     \<Rightarrow> 'c \<times> 'w call list" where
  "update_directions ext cfg [] (c, lg) = (c, lg)"
| "update_directions ext cfg (k # ks) (c, lg) =
     (if value_or (valid k) True then update_directions ext cfg ks (c, lg)
      else
        let px = fst (physical cfg k);
            py = snd (physical cfg k)
        in update_directions ext cfg ks
             (cone_update_direction ext c px py, lg @ [Cone_update_direction px py]))"

text \<open>The second loop, lines 285--294.\<close>

fun mark_contacts ::
  "('c, 'f, 'd, 'w) collaborators \<Rightarrow> config \<Rightarrow> 'c \<Rightarrow> contact list \<Rightarrow> contact list" where
  "mark_contacts ext cfg c [] = []"
| "mark_contacts ext cfg c (k # ks) =
     (if \<not> value_or (valid k) True then k
      else
        let px = fst (physical cfg k);
            py = snd (physical cfg k)
        in k\<lparr>valid := Some (cone_check ext c px py)\<rparr>)
     # mark_contacts ext cfg c ks"

definition update_touch_cone ::
  "('c, 'f, 'd, 'w) collaborators \<Rightarrow> ('c, 'f, 'd, 'w) application
     \<Rightarrow> ('c, 'f, 'd, 'w) application" where
  "update_touch_cone ext s =
     (if \<not> cone_alive ext (m_cone s) then s
      else if \<not> cone_active ext (m_cone s) then s
      else if \<not> touch_check_cone (m_config s) then s
      else
        let r = update_directions ext (m_config s) (m_contacts s) (m_cone s, calls s)
        in s\<lparr> m_contacts := mark_contacts ext (m_config s) (fst r) (m_contacts s),
               m_cone := fst r,
               calls := snd r \<rparr>)"

definition process_heatmap ::
  "('c, 'f, 'd, 'w) collaborators \<Rightarrow> heatmap \<Rightarrow> ('c, 'f, 'd, 'w) application
     \<Rightarrow> ('c, 'f, 'd, 'w) application" where
  "process_heatmap ext hm s =
     (let img = normalize hm;
          found = finder_find ext (m_finder s) img (m_contacts s);
          s1 = s\<lparr> m_heatmap := img,
                   m_finder := snd found,
                   m_contacts := fst found,
                   calls := calls s @ [Finder_find img] \<rparr>;
          s2 = update_touch_cone ext s1
      in s2\<lparr> calls := calls s2 @ [On_contacts (m_contacts s2)] \<rparr>)"

text \<open>The stylus position scaled to physical coordinates, lines 232--233.\<close>

definition stylus_physical :: "config \<Rightarrow> stylus_data \<Rightarrow> f64 \<times> f64" where
  "stylus_physical cfg st =
     (f64_mul (f64_div (f64_of_nat (unat (stylus_x st))) (f64_of_int IPTS_MAX_X)) (width cfg),
      f64_mul (f64_div (f64_of_nat (unat (stylus_y st))) (f64_of_int IPTS_MAX_Y)) (height cfg))"

definition process_stylus ::
  "('c, 'f, 'd, 'w) collaborators \<Rightarrow> stylus_data \<Rightarrow> ('c, 'f, 'd, 'w) application
     \<Rightarrow> ('c, 'f, 'd, 'w) application" where
  "process_stylus ext st s =
     (let px = fst (stylus_physical (m_config s) st);
          py = snd (stylus_physical (m_config s) st)
      in s\<lparr> m_cone := cone_update_position ext (m_cone s) px py,
             calls := calls s @ [Cone_update_position px py, On_stylus st] \<rparr>)"

definition process_dft ::
  "('c, 'f, 'd, 'w) collaborators \<Rightarrow> 'w \<Rightarrow> ('c, 'f, 'd, 'w) application
     \<Rightarrow> ('c, 'f, 'd, 'w) application" where
  "process_dft ext w s =
     (let s1 = s\<lparr> m_dft := dft_input ext (m_dft s) w, calls := calls s @ [Dft_input w] \<rparr>
      in process_stylus ext (dft_get_stylus ext (m_dft s1)) s1)"

text \<open>The three parser callbacks the constructor installs, lines 135--137.\<close>

fun dispatch ::
  "('c, 'f, 'd, 'w) collaborators \<Rightarrow> 'w frame \<Rightarrow> ('c, 'f, 'd, 'w) application
     \<Rightarrow> ('c, 'f, 'd, 'w) application" where
  "dispatch ext (Heatmap_frame hm) s = process_heatmap ext hm s"
| "dispatch ext (Stylus_frame st) s = process_stylus ext st s"
| "dispatch ext (Dft_frame w) s = process_dft ext w s"

text \<open>
  Modelled from the spec: \<open>ipts::Parser::parse\<close> (\<open>ipts/parser.hpp\<close> is not among the
  sources).  Section 4.A: each successful decode invokes the matching callback exactly
  once per sub-frame, in source order; section 7: on a parse error the sub-frames before
  the failing one have been delivered and the later ones are lost.  \<open>parser_decode\<close>
  yields the sub-frames decoded from the buffer, in buffer order, and whether decoding
  then failed.
\<close>

fun run_frames ::
  "('c, 'f, 'd, 'w) collaborators \<Rightarrow> 'w frame list \<Rightarrow> ('c, 'f, 'd, 'w) application
     \<Rightarrow> ('c, 'f, 'd, 'w) application" where
  "run_frames ext [] s = s"
| "run_frames ext (fr # frs) s = run_frames ext frs (dispatch ext fr s)"

definition Parser_parse ::
  "('c, 'f, 'd, 'w) collaborators \<Rightarrow> u8 list \<Rightarrow> ('c, 'f, 'd, 'w) application
     \<Rightarrow> error option \<times> ('c, 'f, 'd, 'w) application" where
  "Parser_parse ext bytes s =
     (let decoded = parser_decode ext bytes
      in (if snd decoded then Some Parse_error else None, run_frames ext (fst decoded) s))"

text \<open>\<open>on_data\<close> (lines 167--170) and \<open>process\<close> (lines 147--150).\<close>

definition on_data ::
  "('c, 'f, 'd, 'w) collaborators \<Rightarrow> u8 list \<Rightarrow> ('c, 'f, 'd, 'w) application
     \<Rightarrow> error option \<times> ('c, 'f, 'd, 'w) application" where
  "on_data ext bytes s = Parser_parse ext bytes s"

definition process ::
  "('c, 'f, 'd, 'w) collaborators \<Rightarrow> u8 list \<Rightarrow> ('c, 'f, 'd, 'w) application
     \<Rightarrow> error option \<times> ('c, 'f, 'd, 'w) application" where
  "process ext bytes s = on_data ext bytes s"

text \<open>The position updates among a sequence of calls, oldest first.\<close>

fun position_updates :: "'w call list \<Rightarrow> (f64 \<times> f64) list" where
  "position_updates [] = []"
| "position_updates (Cone_update_position px py # cs) = (px, py) # position_updates cs"
| "position_updates (_ # cs) = position_updates cs"

fun is_heatmap_frame :: "'w frame \<Rightarrow> bool" where
  "is_heatmap_frame (Heatmap_frame _) = True"
| "is_heatmap_frame _ = False"


section \<open>The daemon's input devices\<close>

text \<open>
  \<open>devices.cpp\<close>.  An \<open>i32\<close> is an integer in the range below; signed overflow and a
  conversion from floating point that does not fit are undefined in C++, and a value so
  obtained is \<open>None\<close>.
\<close>

definition i32_range :: "int \<Rightarrow> bool" where
  "i32_range v = (- (2 ^ 31) \<le> v \<and> v < 2 ^ 31)"

text \<open>\<open>std::round\<close>: to the nearest integer, halfway cases away from zero.\<close>

definition cpp_round :: "real \<Rightarrow> int" where
  "cpp_round r = (if 0 \<le> r then \<lfloor>r + 1 / 2\<rfloor> else \<lceil>r - 1 / 2\<rceil>)"

text \<open>\<open>(i32)std::round(r)\<close>.\<close>

fun i32_of_rounded :: "f64 \<Rightarrow> int option" where
  "i32_of_rounded (Finite q) = (if i32_range (cpp_round q) then Some (cpp_round q) else None)"
| "i32_of_rounded _ = None"

text \<open>Lines 23--27.\<close>

definition res :: "int \<Rightarrow> int \<Rightarrow> int option" where
  "res virt phys =
     (if \<not> i32_range (virt * 10) then None
      else i32_of_rounded (f64_div (f64_of_int (virt * 10)) (f64_of_int phys)))"

text \<open>
  \<open>IptsdConfig\<close>: the screen size in tenths of a millimetre (\<open>i32\<close>) and the contact
  limit of the device information.
\<close>

record IptsdConfig =
  conf_width :: int
  conf_height :: int
  max_contacts :: int

datatype abs_axis =
    ABS_X | ABS_Y | ABS_PRESSURE | ABS_TILT_X | ABS_TILT_Y | ABS_MISC
  | ABS_MT_SLOT | ABS_MT_TRACKING_ID | ABS_MT_POSITION_X | ABS_MT_POSITION_Y
  | ABS_MT_TOOL_TYPE | ABS_MT_TOOL_X | ABS_MT_TOOL_Y | ABS_MT_ORIENTATION
  | ABS_MT_TOUCH_MAJOR | ABS_MT_TOUCH_MINOR

record absinfo =
  abs_minimum :: int
  abs_maximum :: int
  abs_resolution :: "int option"

text \<open>
  \<open>UinputDevice::set_absinfo\<close> records the range and the resolution advertised for an
  axis; a later call for the same axis replaces the earlier one.
\<close>

definition set_absinfo ::
  "abs_axis \<Rightarrow> int \<Rightarrow> int \<Rightarrow> int option \<Rightarrow> (abs_axis \<rightharpoonup> absinfo) \<Rightarrow> (abs_axis \<rightharpoonup> absinfo)" where
  "set_absinfo ax lo hi r m =
     m(ax \<mapsto> \<lparr> abs_minimum = lo, abs_maximum = hi, abs_resolution = r \<rparr>)"

record stylus_device =
  stylus_serial :: u32
  stylus_abs :: "abs_axis \<rightharpoonup> absinfo"

record touch_device =
  touch_abs :: "abs_axis \<rightharpoonup> absinfo"

text \<open>
  \<open>StylusDevice::StylusDevice\<close>, lines 29--58.  The tilt resolution \<open>18000 / M_PI\<close> is
  5729 as an integer; \<open>USHRT_MAX\<close> is 65535.  The serial is zero until
  \<open>switch_stylus\<close> assigns it.
\<close>

definition StylusDevice_ctor :: "IptsdConfig \<Rightarrow> stylus_device" where
  "StylusDevice_ctor conf =
     (let res_x = res IPTS_MAX_X (conf_width conf);
          res_y = res IPTS_MAX_Y (conf_height conf)
      in \<lparr> stylus_serial = 0,
           stylus_abs =
            (set_absinfo ABS_MISC 0 65535 (Some 0)
            (set_absinfo ABS_TILT_Y (- 9000) 9000 (Some 5729)
            (set_absinfo ABS_TILT_X (- 9000) 9000 (Some 5729)
            (set_absinfo ABS_PRESSURE 0 4096 (Some 0)
            (set_absinfo ABS_Y 0 IPTS_MAX_Y res_y
            (set_absinfo ABS_X 0 IPTS_MAX_X res_x Map.empty)))))) \<rparr>)"

text \<open>
  The diagonal of line 73, \<open>std::sqrt(width * width + height * height)\<close> converted to
  \<open>i32\<close> at the call of \<open>res\<close>: the square root rounded down.
\<close>

definition diagonal :: "IptsdConfig \<Rightarrow> int" where
  "diagonal conf =
     \<lfloor>sqrt (real_of_int (conf_width conf * conf_width conf + conf_height conf * conf_height conf))\<rfloor>"

text \<open>
  \<open>TouchDevice::TouchDevice\<close>, lines 60--92; \<open>MT_TOOL_MAX\<close> is 15.  Line 84 sets
  \<open>ABS_MT_TOOL_X\<close> a second time, as the source does.
\<close>

definition TouchDevice_ctor :: "IptsdConfig \<Rightarrow> touch_device" where
  "TouchDevice_ctor conf =
     (let res_x = res IPTS_MAX_X (conf_width conf);
          res_y = res IPTS_MAX_Y (conf_height conf);
          res_d = res IPTS_DIAGONAL (diagonal conf)
      in \<lparr> touch_abs =
            (set_absinfo ABS_Y 0 IPTS_MAX_Y res_y
            (set_absinfo ABS_X 0 IPTS_MAX_X res_x
            (set_absinfo ABS_MT_TOUCH_MINOR 0 IPTS_DIAGONAL res_d
            (set_absinfo ABS_MT_TOUCH_MAJOR 0 IPTS_DIAGONAL res_d
            (set_absinfo ABS_MT_ORIENTATION 0 180 (Some 0)
            (set_absinfo ABS_MT_TOOL_X 0 IPTS_MAX_X res_x
            (set_absinfo ABS_MT_TOOL_X 0 IPTS_MAX_X res_x
            (set_absinfo ABS_MT_TOOL_TYPE 0 15 (Some 0)
            (set_absinfo ABS_MT_POSITION_Y 0 IPTS_MAX_Y res_y
            (set_absinfo ABS_MT_POSITION_X 0 IPTS_MAX_X res_x
            (set_absinfo ABS_MT_TRACKING_ID 0 (max_contacts conf) (Some 0)
            (set_absinfo ABS_MT_SLOT 0 (max_contacts conf) (Some 0) Map.empty)))))))))))) \<rparr>)"

text \<open>
  \<open>DeviceManager\<close>.  The vector \<open>styli\<close> owns the stylus devices; a device is named by
  its position in the vector, which never shrinks while the manager lives, so the
  pointer \<open>active_stylus\<close> is a position, or \<open>None\<close> before it is first assigned.
\<close>

record device_manager =
  dm_conf :: IptsdConfig
  touch :: touch_device
  styli :: "stylus_device list"
  active_stylus :: "nat option"

text \<open>The search loop of \<open>switch_stylus\<close>, lines 111--117, from position \<open>i\<close> on.\<close>

fun find_serial :: "u32 \<Rightarrow> stylus_device list \<Rightarrow> nat \<Rightarrow> nat option" where
  "find_serial sn [] i = None"
| "find_serial sn (d # ds) i =
     (if stylus_serial d \<noteq> sn then find_serial sn ds (Suc i) else Some i)"

text \<open>Lines 124--128: a new device, given the serial, appended and made active.\<close>

definition create_stylus :: "u32 \<Rightarrow> device_manager \<Rightarrow> device_manager" where
  "create_stylus sn dm =
     dm\<lparr> styli := styli dm @ [(StylusDevice_ctor (dm_conf dm))\<lparr>stylus_serial := sn\<rparr>],
         active_stylus := Some (length (styli dm)) \<rparr>"

text \<open>
  Lines 109--132.  Reading \<open>active_stylus->serial\<close> through a pointer that was never
  assigned is undefined.
\<close>

definition switch_stylus :: "u32 \<Rightarrow> device_manager \<Rightarrow> error + device_manager" where
  "switch_stylus sn dm =
     (case find_serial sn (styli dm) 0 of
        Some i \<Rightarrow> Inr (dm\<lparr>active_stylus := Some i\<rparr>)
      | None \<Rightarrow>
          if 0 < length (styli dm) then
            (case active_stylus dm of
               None \<Rightarrow> Inl Undefined_behaviour
             | Some a \<Rightarrow>
                 if length (styli dm) \<le> a then Inl Undefined_behaviour
                 else if stylus_serial (styli dm ! a) = 0
                 then Inr (dm\<lparr>styli := (styli dm)[a := (styli dm ! a)\<lparr>stylus_serial := sn\<rparr>]\<rparr>)
                 else Inr (create_stylus sn dm))
          else Inr (create_stylus sn dm))"

text \<open>
  \<open>DeviceManager::DeviceManager\<close>, lines 94--101: the touch device is a member
  initialised before the body runs.
\<close>

definition DeviceManager_ctor :: "IptsdConfig \<Rightarrow> error + device_manager" where
  "DeviceManager_ctor conf =
     (let t = TouchDevice_ctor conf
      in if conf_width conf = 0 \<or> conf_height conf = 0
         then Inl (Runtime_error ''Display size is 0'')
         else switch_stylus 0
                \<lparr> dm_conf = conf, touch = t, styli = [], active_stylus = None \<rparr>)"

text \<open>The active pointer names a device of the vector whenever the vector is not empty.\<close>

definition active_in_styli :: "device_manager \<Rightarrow> bool" where
  "active_in_styli dm =
     (case active_stylus dm of
        None \<Rightarrow> styli dm = []
      | Some a \<Rightarrow> a < length (styli dm))"


section \<open>The read loop of the calibration runner\<close>

text \<open>
  \<open>calibrate.cpp\<close>, lines 152--181.  What one turn of the loop meets: the exit flag
  raised by a signal when the loop condition is tested, an exception from
  \<open>device.read\<close> or \<open>parser.parse\<close>, a report without touch data, or a report that
  is parsed to the end.
\<close>

datatype turn = Exit_requested | Throws | No_touch_data | Parsed

datatype loop_end = Exited int | Aborted int | Running int

text \<open>
  The loop over the turns the environment provides, carrying \<open>errors\<close>.  \<open>Running\<close>: the
  turns given are used up and the loop has not ended.
\<close>

fun read_loop :: "turn list \<Rightarrow> int \<Rightarrow> loop_end" where
  "read_loop [] errors = Running errors"
| "read_loop (Exit_requested # ts) errors = Exited errors"
| "read_loop (t # ts) errors =
     (if 50 \<le> errors then Aborted errors
      else case t of
        Throws \<Rightarrow> read_loop ts (errors + 1)
      | No_touch_data \<Rightarrow> read_loop ts errors
      | Parsed \<Rightarrow> read_loop ts 0
      | Exit_requested \<Rightarrow> Exited errors)"

text \<open>The length of the longest run of consecutive throwing turns.\<close>

fun longest_run :: "turn list \<Rightarrow> nat \<Rightarrow> nat \<Rightarrow> nat" where
  "longest_run [] cur best = max cur best"
| "longest_run (Throws # ts) cur best = longest_run ts (Suc cur) best"
| "longest_run (_ # ts) cur best = longest_run ts 0 (max cur best)"


section \<open>A concrete set of collaborators\<close>

text \<open>
  A small implementation of the collaborators, on which the theorems below are
  instantiated.  The cone remembers the last stylus position and the palm positions it
  was given and rejects a touch at the stylus position; the finder reports the contacts
  held in its state; a DFT window is the stylus sample it stands for; the decoder reads
  a zero byte as a one-cell heatmap frame and any other byte as a stylus frame at that
  coordinate.
\<close>

record demo_cone =
  seen :: bool
  recent :: bool
  origin :: "f64 \<times> f64"
  palms :: "(f64 \<times> f64) list"

definition pen :: "u16 \<Rightarrow> u16 \<Rightarrow> stylus_data" where
  "pen px py =
     \<lparr> proximity = True, stylus_contact = False, button = False, rubber = False,
       stylus_x = px, stylus_y = py, pressure = 0, serial = 1 \<rparr>"

definition frame_of_byte :: "u8 \<Rightarrow> stylus_data frame" where
  "frame_of_byte b =
     (if b = 0
      then Heatmap_frame
             \<lparr> dim = \<lparr> dim_height = 1, dim_width = 1, z_min = 0, z_max = 255 \<rparr>, data = [b] \<rparr>
      else Stylus_frame (pen (ucast b) (ucast b)))"

definition demo :: "(demo_cone, contact list, stylus_data, stylus_data) collaborators" where
  "demo =
     \<lparr> cone_ctor = (\<lambda>a d. \<lparr> seen = False, recent = False,
                               origin = (Finite 0, Finite 0), palms = [] \<rparr>),
       cone_alive = seen,
       cone_active = recent,
       cone_update_position = (\<lambda>c px py. c\<lparr> seen := True, recent := True, origin := (px, py) \<rparr>),
       cone_update_direction = (\<lambda>c px py. c\<lparr> palms := palms c @ [(px, py)] \<rparr>),
       cone_check = (\<lambda>c px py. (px, py) \<noteq> origin c),
       finder_ctor = (\<lambda>cfg. []),
       finder_find = (\<lambda>f img old. (f, f)),
       dft_ctor = (\<lambda>cfg. pen 0 0),
       dft_input = (\<lambda>d w. w),
       dft_get_stylus = (\<lambda>d. d),
       parser_decode = (\<lambda>bytes. (map frame_of_byte bytes, False)) \<rparr>"

definition demo_config :: config where
  "demo_config =
     \<lparr> width = Finite 2600, height = Finite 1730, cone_angle = Finite 30,
       cone_distance = Finite 1600, touch_check_cone = True \<rparr>"


text \<open>
  Three contacts as a finder may report them (a known palm, one of unknown validity, a
  known finger), and an application state whose cone is alive and active exactly when
  \<open>on\<close> holds; its origin is the physical position of the second contact.
\<close>

definition demo_contacts :: "contact list" where
  "demo_contacts =
     [\<lparr> index = 0, mean = (Finite (1 / 2), Finite (1 / 2)), stable = True, valid = Some False \<rparr>,
      \<lparr> index = 1, mean = (Finite (1 / 4), Finite (1 / 4)), stable = True, valid = None \<rparr>,
      \<lparr> index = 2, mean = (Finite (3 / 4), Finite (1 / 2)), stable = False, valid = Some True \<rparr>]"

definition demo_app ::
  "bool \<Rightarrow> (demo_cone, contact list, stylus_data, stylus_data) application" where
  "demo_app on =
     \<lparr> m_config = demo_config,
       m_heatmap = \<lparr> rows = 0, cols = 0, cells = [] \<rparr>,
       m_finder = demo_contacts,
       m_contacts = demo_contacts,
       m_dft = pen 0 0,
       m_cone = \<lparr> seen = on, recent = on, origin = (Finite 650, Finite (865 / 2)), palms = [] \<rparr>,
       calls = [] \<rparr>"


text \<open>
  A configuration of the daemon and the device manager its constructor builds from it:
  one stylus device with serial 0, active.
\<close>

definition demo_conf :: IptsdConfig where
  "demo_conf = \<lparr> conf_width = 2600, conf_height = 1730, max_contacts = 10 \<rparr>"

definition demo_manager :: device_manager where
  "demo_manager =
     create_stylus 0
       \<lparr> dm_conf = demo_conf, touch = TouchDevice_ctor demo_conf, styli = [],
         active_stylus = None \<rparr>"


section \<open>Auxiliary notions for the statements\<close>

text \<open>A contact the finder has already flagged as a palm: validity known and false.\<close>

definition known_false :: "contact \<Rightarrow> bool" where
  "known_false k = (valid k = Some False)"


section \<open>Properties of the normalization\<close>

lemma normalize_cell_finite:
  assumes "zmin \<noteq> zmax"
  shows "normalize_cell zmin zmax u =
           Finite (1 - (real (unat u) - real (unat zmin)) / (real (unat zmax) - real (unat zmin)))"
proof -
  from assms have "unat zmin \<noteq> unat zmax"
    by (simp add: word_unat_eq_iff)
  then have "real (unat zmax) - real (unat zmin) \<noteq> 0"
    by (simp del: of_nat_unat)
  then show ?thesis
    by (simp add: normalize_cell_def f64_sub_def f64_of_nat_def Let_def del: of_nat_unat)
qed

lemma normalize_cell_degenerate:
  "normalize_cell z z u = (if u = z then NaN else if z < u then NegInf else PosInf)"
proof -
  have lt: "z < u \<longleftrightarrow> unat z < unat u"
    by (simp add: word_less_nat_alt)
  have eq: "u = z \<longleftrightarrow> unat u = unat z"
    by (simp add: word_unat_eq_iff)
  show ?thesis
    unfolding lt eq
    by (auto simp add: normalize_cell_def f64_sub_def f64_of_nat_def Let_def
          simp del: of_nat_unat)
qed

lemma unit_quotient:
  fixes a b :: real
  assumes "0 \<le> a" "a \<le> b" "0 < b"
  shows "0 \<le> 1 - a / b \<and> 1 - a / b \<le> 1"
proof -
  from assms have "a / b \<le> 1" by simp
  moreover from assms have "0 \<le> a / b" by simp
  ultimately show ?thesis by simp
qed

lemma normalize_cell_in_unit:
  assumes "zmin < zmax" "zmin \<le> u" "u \<le> zmax"
  shows "f64_in_unit (normalize_cell zmin zmax u)"
proof -
  from assms have ne: "zmin \<noteq> zmax" by auto
  from assms have a: "unat zmin < unat zmax" "unat zmin \<le> unat u" "unat u \<le> unat zmax"
    by (simp_all add: word_less_nat_alt word_le_nat_alt)
  then have "0 \<le> real (unat u) - real (unat zmin)"
    and "real (unat u) - real (unat zmin) \<le> real (unat zmax) - real (unat zmin)"
    and "0 < real (unat zmax) - real (unat zmin)"
    by (simp_all del: of_nat_unat)
  from unit_quotient [OF this] show ?thesis
    by (simp add: normalize_cell_finite [OF ne] del: of_nat_unat)
qed

lemma normalize_cells_nth:
  assumes "i < length (cells (normalize hm))"
  shows "cells (normalize hm) ! i = normalize_cell (z_min (dim hm)) (z_max (dim hm)) (data hm ! i)"
  using assms by (simp add: normalize_def Let_def)

text \<open>
  Claim C1, as amended.  For every cell of a heatmap frame: when \<open>z_max \<noteq> z_min\<close> the
  normalized cell is \<open>1 - (u - z_min) / (z_max - z_min)\<close>, with no clamping applied; it
  lies in \<open>[0, 1]\<close> whenever \<open>z_min < z_max\<close> and the raw cell lies in
  \<open>[z_min, z_max]\<close>; when \<open>z_max = z_min\<close> the division by zero leaves a NaN or an
  infinity in the cell, not zero.  The normalized image has the frame's shape.
\<close>

theorem normalize_cells:
  assumes "i < length (cells (normalize hm))"
  shows "rows (normalize hm) = unat (dim_height (dim hm))
       \<and> cols (normalize hm) = unat (dim_width (dim hm))
       \<and> (z_min (dim hm) \<noteq> z_max (dim hm) \<longrightarrow>
            cells (normalize hm) ! i =
              Finite (1 - (real (unat (data hm ! i)) - real (unat (z_min (dim hm))))
                          / (real (unat (z_max (dim hm))) - real (unat (z_min (dim hm))))))
       \<and> (z_min (dim hm) < z_max (dim hm) \<and> z_min (dim hm) \<le> data hm ! i
            \<and> data hm ! i \<le> z_max (dim hm) \<longrightarrow>
            f64_in_unit (cells (normalize hm) ! i))
       \<and> (z_min (dim hm) = z_max (dim hm) \<longrightarrow> \<not> f64_finite (cells (normalize hm) ! i))"
proof -
  note cell = normalize_cells_nth [OF assms]
  have shape: "rows (normalize hm) = unat (dim_height (dim hm))"
              "cols (normalize hm) = unat (dim_width (dim hm))"
    by (simp_all add: normalize_def Let_def)
  have a: "z_min (dim hm) \<noteq> z_max (dim hm) \<longrightarrow>
            cells (normalize hm) ! i =
              Finite (1 - (real (unat (data hm ! i)) - real (unat (z_min (dim hm))))
                          / (real (unat (z_max (dim hm))) - real (unat (z_min (dim hm)))))"
    unfolding cell using normalize_cell_finite by blast
  have b: "z_min (dim hm) < z_max (dim hm) \<and> z_min (dim hm) \<le> data hm ! i
            \<and> data hm ! i \<le> z_max (dim hm) \<longrightarrow>
            f64_in_unit (cells (normalize hm) ! i)"
    unfolding cell using normalize_cell_in_unit by blast
  have c: "z_min (dim hm) = z_max (dim hm) \<longrightarrow> \<not> f64_finite (cells (normalize hm) ! i)"
    unfolding cell by (simp add: normalize_cell_degenerate)
  from shape a b c show ?thesis by blast
qed

text \<open>
  The amended claim at a \<open>2 \<times> 2\<close> frame with range \<open>[0, 255]\<close>: the raw cell 51 is
  normalized to \<open>4/5\<close>.
\<close>

theorem normalize_cells_witness:
  "(2::nat) < length (cells (normalize
       \<lparr> dim = \<lparr> dim_height = 2, dim_width = 2, z_min = 0, z_max = 255 \<rparr>,
         data = [255, 0, 51, 204] \<rparr>))
   \<and> cells (normalize
       \<lparr> dim = \<lparr> dim_height = 2, dim_width = 2, z_min = 0, z_max = 255 \<rparr>,
         data = [255, 0, 51, 204] \<rparr>) ! 2 = Finite (4 / 5)
   \<and> f64_in_unit (cells (normalize
       \<lparr> dim = \<lparr> dim_height = 2, dim_width = 2, z_min = 0, z_max = 255 \<rparr>,
         data = [255, 0, 51, 204] \<rparr>) ! 2)"
proof -
  let ?hm = "\<lparr> dim = \<lparr> dim_height = 2, dim_width = 2, z_min = 0, z_max = 255 \<rparr>,
         data = [255, 0, 51, 204] \<rparr> :: heatmap"
  have len: "(2::nat) < length (cells (normalize ?hm))"
    by (simp add: normalize_def)
  from normalize_cells [OF len] show ?thesis
    using len by simp
qed

text \<open>
  Claim C1 as stated fails.  With range \<open>[0, 2]\<close> the raw cell 5 is normalized to
  \<open>-3/2\<close>, outside \<open>[0, 1]\<close>: nothing clamps.  With \<open>z_min = z_max = 7\<close> the raw cell 7
  becomes NaN and the raw cell 9 becomes minus infinity, not zero.
\<close>

theorem normalize_counterexample:
  "cells (normalize \<lparr> dim = \<lparr> dim_height = 1, dim_width = 1, z_min = 0, z_max = 2 \<rparr>,
                      data = [5] \<rparr>) = [Finite (- 3 / 2)]
   \<and> \<not> f64_in_unit (Finite (- 3 / 2))
   \<and> cells (normalize \<lparr> dim = \<lparr> dim_height = 1, dim_width = 1, z_min = 7, z_max = 7 \<rparr>,
                        data = [7] \<rparr>) = [NaN]
   \<and> cells (normalize \<lparr> dim = \<lparr> dim_height = 1, dim_width = 1, z_min = 7, z_max = 7 \<rparr>,
                        data = [9] \<rparr>) = [NegInf]"
  by (simp add: normalize_def normalize_cell_def f64_sub_def f64_of_nat_def)

section \<open>The palm rejection pass\<close>

lemma value_or_valid: "value_or v True \<longleftrightarrow> v \<noteq> Some False"
  by (cases v) auto


lemma update_directions_eq:
  "update_directions ext cfg ks (c, lg) =
     (foldl (\<lambda>c k. cone_update_direction ext c (fst (physical cfg k)) (snd (physical cfg k)))
            c (filter known_false ks),
      lg @ map (\<lambda>k. Cone_update_direction (fst (physical cfg k)) (snd (physical cfg k)))
               (filter known_false ks))"
  by (induction ks arbitrary: c lg) (simp_all add: value_or_valid known_false_def Let_def)

lemma mark_contacts_eq:
  "mark_contacts ext cfg c ks =
     map (\<lambda>k. if known_false k then k
               else k\<lparr>valid := Some (cone_check ext c (fst (physical cfg k)) (snd (physical cfg k)))\<rparr>)
         ks"
  by (induction ks) (simp_all add: value_or_valid known_false_def Let_def)

lemma update_touch_cone_gated:
  assumes "\<not> cone_alive ext (m_cone s) \<or> \<not> cone_active ext (m_cone s)
             \<or> \<not> touch_check_cone (m_config s)"
  shows "update_touch_cone ext s = s"
  using assms by (auto simp add: update_touch_cone_def)

text \<open>
  Claim C3.  When the cone is not alive, or not active, or \<open>touch_check_cone\<close> is off,
  processing a heatmap frame hands \<open>on_contacts\<close> exactly the contacts the finder
  returned: the validity of every delivered contact is the one the finder gave it, and
  the cone is not touched.
\<close>

theorem palm_pass_skipped:
  assumes "\<not> cone_alive ext (m_cone s) \<or> \<not> cone_active ext (m_cone s)
             \<or> \<not> touch_check_cone (m_config s)"
  shows "calls (process_heatmap ext hm s) =
           calls s @ [Finder_find (normalize hm),
                      On_contacts (fst (finder_find ext (m_finder s) (normalize hm) (m_contacts s)))]
       \<and> map valid (m_contacts (process_heatmap ext hm s)) =
           map valid (fst (finder_find ext (m_finder s) (normalize hm) (m_contacts s)))
       \<and> m_cone (process_heatmap ext hm s) = m_cone s"
proof -
  let ?found = "finder_find ext (m_finder s) (normalize hm) (m_contacts s)"
  let ?s1 = "s\<lparr> m_heatmap := normalize hm, m_finder := snd ?found, m_contacts := fst ?found,
                 calls := calls s @ [Finder_find (normalize hm)] \<rparr>"
  from assms have "\<not> cone_alive ext (m_cone ?s1) \<or> \<not> cone_active ext (m_cone ?s1)
             \<or> \<not> touch_check_cone (m_config ?s1)"
    by simp
  then have "update_touch_cone ext ?s1 = ?s1"
    by (rule update_touch_cone_gated)
  then show ?thesis
    by (simp add: process_heatmap_def Let_def)
qed

text \<open>
  Claim C3 at a cone that has never seen the stylus: the three validities the finder
  reports reach the hook unchanged.
\<close>

theorem palm_pass_skipped_witness:
  "\<not> cone_alive demo (m_cone (demo_app False))
   \<and> map valid (m_contacts (process_heatmap demo
         \<lparr> dim = \<lparr> dim_height = 1, dim_width = 1, z_min = 0, z_max = 255 \<rparr>, data = [0] \<rparr>
         (demo_app False))) = [Some False, None, Some True]
   \<and> map valid (fst (finder_find demo (m_finder (demo_app False))
         (normalize \<lparr> dim = \<lparr> dim_height = 1, dim_width = 1, z_min = 0, z_max = 255 \<rparr>,
                      data = [0] \<rparr>)
         (m_contacts (demo_app False)))) = [Some False, None, Some True]"
proof -
  have h: "\<not> cone_alive demo (m_cone (demo_app False))
             \<or> \<not> cone_active demo (m_cone (demo_app False))
             \<or> \<not> touch_check_cone (m_config (demo_app False))"
    by (simp add: demo_def demo_app_def)
  from palm_pass_skipped [OF h] show ?thesis
    by (simp add: demo_def demo_app_def demo_contacts_def)
qed

text \<open>
  Claim C4.  When the cone is alive and active and \<open>touch_check_cone\<close> is on, the pass
  first calls \<open>update_direction\<close> once for each contact whose validity is known to be
  false, in order, at the contact's centre times the configured width and height, and
  for no other contact; it then gives every other contact the validity
  \<open>cone.check\<close> returns at its physical position, the cone being the one the first
  loop left, and leaves the known-false contacts as they are.
\<close>

theorem palm_pass:
  assumes "cone_alive ext (m_cone s)" "cone_active ext (m_cone s)" "touch_check_cone (m_config s)"
  shows "m_cone (update_touch_cone ext s) =
           foldl (\<lambda>c k. cone_update_direction ext c (fst (physical (m_config s) k))
                                                   (snd (physical (m_config s) k)))
                 (m_cone s) (filter (\<lambda>k. valid k = Some False) (m_contacts s))
       \<and> calls (update_touch_cone ext s) =
           calls s @ map (\<lambda>k. Cone_update_direction (fst (physical (m_config s) k))
                                                     (snd (physical (m_config s) k)))
                         (filter (\<lambda>k. valid k = Some False) (m_contacts s))
       \<and> m_contacts (update_touch_cone ext s) =
           map (\<lambda>k. if valid k = Some False then k
                     else k\<lparr>valid := Some (cone_check ext (m_cone (update_touch_cone ext s))
                                              (fst (physical (m_config s) k))
                                              (snd (physical (m_config s) k)))\<rparr>)
               (m_contacts s)
       \<and> (\<forall>k. physical (m_config s) k =
                (f64_mul (fst (mean k)) (width (m_config s)),
                 f64_mul (snd (mean k)) (height (m_config s))))"
proof -
  have kf: "known_false = (\<lambda>k. valid k = Some False)"
    by (simp add: known_false_def fun_eq_iff)
  from assms show ?thesis
    by (simp add: update_touch_cone_def Let_def update_directions_eq mark_contacts_eq kf
          physical_def)
qed

text \<open>
  Claim C4 at three contacts: the palm at the centre of the screen turns the cone, the
  contact of unknown validity sits at the stylus position and is rejected, the known
  finger elsewhere stays valid.
\<close>

theorem palm_pass_witness:
  "cone_alive demo (m_cone (demo_app True))
   \<and> cone_active demo (m_cone (demo_app True))
   \<and> touch_check_cone (m_config (demo_app True))
   \<and> palms (m_cone (update_touch_cone demo (demo_app True))) = [(Finite 1300, Finite 865)]
   \<and> calls (update_touch_cone demo (demo_app True)) =
        [Cone_update_direction (Finite 1300) (Finite 865)]
   \<and> map valid (m_contacts (update_touch_cone demo (demo_app True))) =
        [Some False, Some False, Some True]"
proof -
  have a: "cone_alive demo (m_cone (demo_app True))"
    and b: "cone_active demo (m_cone (demo_app True))"
    and c: "touch_check_cone (m_config (demo_app True))"
    by (simp_all add: demo_def demo_app_def demo_config_def)
  from palm_pass [OF a b c] a b c show ?thesis
    by (simp add: demo_def demo_app_def demo_config_def demo_contacts_def physical_def)
qed


section \<open>Stylus frames and DFT windows\<close>

lemma stylus_physical_finite:
  assumes "width cfg = Finite w" "height cfg = Finite h"
  shows "stylus_physical cfg st =
           (Finite (real (unat (stylus_x st)) / real_of_int IPTS_MAX_X * w),
            Finite (real (unat (stylus_y st)) / real_of_int IPTS_MAX_Y * h))"
  using assms
  by (simp add: stylus_physical_def f64_of_nat_def f64_of_int_def IPTS_MAX_X_def IPTS_MAX_Y_def
        del: of_nat_unat)

text \<open>
  Claim C5.  A stylus frame at raw \<open>(x, y)\<close> updates the cone position to
  \<open>(x / IPTS_MAX_X * width, y / IPTS_MAX_Y * height)\<close> and then hands the sample,
  unchanged, to \<open>on_stylus\<close>; nothing else of the application changes.  For a finite
  screen size the two coordinates are the finite values of these quotients and
  products.
\<close>

theorem stylus_frame:
  "process_stylus ext st s =
     s\<lparr> m_cone := cone_update_position ext (m_cone s)
          (f64_mul (f64_div (f64_of_nat (unat (stylus_x st))) (f64_of_int IPTS_MAX_X))
                   (width (m_config s)))
          (f64_mul (f64_div (f64_of_nat (unat (stylus_y st))) (f64_of_int IPTS_MAX_Y))
                   (height (m_config s))),
        calls := calls s @
          [Cone_update_position
             (f64_mul (f64_div (f64_of_nat (unat (stylus_x st))) (f64_of_int IPTS_MAX_X))
                      (width (m_config s)))
             (f64_mul (f64_div (f64_of_nat (unat (stylus_y st))) (f64_of_int IPTS_MAX_Y))
                      (height (m_config s))),
           On_stylus st] \<rparr>
   \<and> (\<forall>w h. width (m_config s) = Finite w \<and> height (m_config s) = Finite h \<longrightarrow>
         calls (process_stylus ext st s) =
           calls s @
             [Cone_update_position
                (Finite (real (unat (stylus_x st)) / real_of_int IPTS_MAX_X * w))
                (Finite (real (unat (stylus_y st)) / real_of_int IPTS_MAX_Y * h)),
              On_stylus st])"
proof -
  have "\<forall>w h. width (m_config s) = Finite w \<and> height (m_config s) = Finite h \<longrightarrow>
         calls (process_stylus ext st s) =
           calls s @
             [Cone_update_position
                (Finite (real (unat (stylus_x st)) / real_of_int IPTS_MAX_X * w))
                (Finite (real (unat (stylus_y st)) / real_of_int IPTS_MAX_Y * h)),
              On_stylus st]"
    by (simp add: process_stylus_def Let_def stylus_physical_finite del: of_nat_unat)
  then show ?thesis
    by (simp add: process_stylus_def stylus_physical_def Let_def del: of_nat_unat)
qed

text \<open>
  Claim C5 at the middle of the device range on a screen of 2600 by 1730: the cone is
  moved to \<open>(1300, 865)\<close>, then the sample is delivered.
\<close>

theorem stylus_frame_witness:
  "width (m_config (demo_app False)) = Finite 2600
   \<and> height (m_config (demo_app False)) = Finite 1730
   \<and> calls (process_stylus demo (pen 4800 3600) (demo_app False)) =
       [Cone_update_position (Finite 1300) (Finite 865), On_stylus (pen 4800 3600)]
   \<and> origin (m_cone (process_stylus demo (pen 4800 3600) (demo_app False))) =
       (Finite 1300, Finite 865)"
proof -
  have h: "width (m_config (demo_app False)) = Finite 2600
             \<and> height (m_config (demo_app False)) = Finite 1730"
    by (simp add: demo_app_def demo_config_def)
  have x: "unat (stylus_x (pen 4800 3600)) = 4800" "unat (stylus_y (pen 4800 3600)) = 3600"
    by (simp_all add: pen_def)
  from stylus_frame [of demo "pen 4800 3600" "demo_app False"] h
  have c: "calls (process_stylus demo (pen 4800 3600) (demo_app False)) =
       [Cone_update_position (Finite 1300) (Finite 865), On_stylus (pen 4800 3600)]"
    by (simp add: x IPTS_MAX_X_def IPTS_MAX_Y_def demo_app_def f64_of_nat_def f64_of_int_def
          del: of_nat_unat)
  have o: "origin (m_cone (process_stylus demo (pen 4800 3600) (demo_app False))) =
       (Finite 1300, Finite 865)"
    by (simp add: process_stylus_def Let_def stylus_physical_def demo_config_def
          f64_of_nat_def f64_of_int_def x IPTS_MAX_X_def IPTS_MAX_Y_def demo_def demo_app_def
          del: of_nat_unat)
  from h c o show ?thesis by blast
qed

text \<open>
  Claim C6.  A DFT window is first given to the estimator; the sample the estimator
  then reports goes through \<open>process_stylus\<close> as a stylus frame does, so that the
  cone position is updated and the sample is delivered to \<open>on_stylus\<close>, in this order.
\<close>

theorem dft_window:
  "process_dft ext w s =
     process_stylus ext (dft_get_stylus ext (dft_input ext (m_dft s) w))
       (s\<lparr> m_dft := dft_input ext (m_dft s) w, calls := calls s @ [Dft_input w] \<rparr>)
   \<and> calls (process_dft ext w s) =
       calls s @
         [Dft_input w,
          Cone_update_position
            (fst (stylus_physical (m_config s) (dft_get_stylus ext (dft_input ext (m_dft s) w))))
            (snd (stylus_physical (m_config s) (dft_get_stylus ext (dft_input ext (m_dft s) w)))),
          On_stylus (dft_get_stylus ext (dft_input ext (m_dft s) w))]
   \<and> m_cone (process_dft ext w s) =
       cone_update_position ext (m_cone s)
         (fst (stylus_physical (m_config s) (dft_get_stylus ext (dft_input ext (m_dft s) w))))
         (snd (stylus_physical (m_config s) (dft_get_stylus ext (dft_input ext (m_dft s) w))))
   \<and> m_dft (process_dft ext w s) = dft_input ext (m_dft s) w"
  by (simp add: process_dft_def process_stylus_def Let_def)

section \<open>Frames of one buffer, in order\<close>

lemma position_updates_append:
  "position_updates (xs @ ys) = position_updates xs @ position_updates ys"
  by (induction xs rule: position_updates.induct) simp_all

lemma position_updates_directions:
  "position_updates (map (\<lambda>k. Cone_update_direction (f k) (g k)) ks) = []"
  by (induction ks) simp_all

lemma update_touch_cone_calls:
  "\<exists>ks. calls (update_touch_cone ext s) =
          calls s @ map (\<lambda>k. Cone_update_direction (fst (physical (m_config s) k))
                                                    (snd (physical (m_config s) k))) ks"
proof (cases "cone_alive ext (m_cone s) \<and> cone_active ext (m_cone s)
                \<and> touch_check_cone (m_config s)")
  case True
  then have "calls (update_touch_cone ext s) =
          calls s @ map (\<lambda>k. Cone_update_direction (fst (physical (m_config s) k))
                                                    (snd (physical (m_config s) k)))
                        (filter known_false (m_contacts s))"
    by (simp add: update_touch_cone_def Let_def update_directions_eq)
  then show ?thesis by blast
next
  case False
  then have "update_touch_cone ext s = s"
    by (auto simp add: update_touch_cone_def)
  then have "calls (update_touch_cone ext s) =
          calls s @ map (\<lambda>k. Cone_update_direction (fst (physical (m_config s) k))
                                                    (snd (physical (m_config s) k))) []"
    by simp
  then show ?thesis by blast
qed

lemma update_touch_cone_config: "m_config (update_touch_cone ext s) = m_config s"
  by (simp add: update_touch_cone_def Let_def)

lemma update_touch_cone_positions:
  "position_updates (calls (update_touch_cone ext s)) = position_updates (calls s)"
proof -
  from update_touch_cone_calls [of ext s] obtain ks where
    "calls (update_touch_cone ext s) =
          calls s @ map (\<lambda>k. Cone_update_direction (fst (physical (m_config s) k))
                                                    (snd (physical (m_config s) k))) ks"
    by blast
  then show ?thesis
    by (simp add: position_updates_append position_updates_directions)
qed

lemma process_heatmap_positions:
  "position_updates (calls (process_heatmap ext hm s)) = position_updates (calls s)"
  by (simp add: process_heatmap_def Let_def position_updates_append
        update_touch_cone_positions)

lemma process_heatmap_calls: "\<exists>t. calls (process_heatmap ext hm s) = calls s @ t"
proof -
  let ?found = "finder_find ext (m_finder s) (normalize hm) (m_contacts s)"
  let ?s1 = "s\<lparr> m_heatmap := normalize hm, m_finder := snd ?found, m_contacts := fst ?found,
                 calls := calls s @ [Finder_find (normalize hm)] \<rparr>"
  from update_touch_cone_calls [of ext ?s1] obtain ks where
    "calls (update_touch_cone ext ?s1) =
       calls ?s1 @ map (\<lambda>k. Cone_update_direction (fst (physical (m_config ?s1) k))
                                                    (snd (physical (m_config ?s1) k))) ks"
    by blast
  then show ?thesis
    by (simp add: process_heatmap_def Let_def)
qed

lemma dispatch_calls: "\<exists>t. calls (dispatch ext fr s) = calls s @ t"
proof (cases fr)
  case (Heatmap_frame hm)
  then show ?thesis using process_heatmap_calls [of ext hm s] by simp
next
  case (Stylus_frame st)
  then show ?thesis by (simp add: process_stylus_def Let_def)
next
  case (Dft_frame w)
  then show ?thesis by (simp add: process_dft_def process_stylus_def Let_def)
qed

lemma run_frames_calls: "\<exists>t. calls (run_frames ext frs s) = calls s @ t"
proof (induction frs arbitrary: s)
  case Nil
  then show ?case by simp
next
  case (Cons fr frs)
  from dispatch_calls [of ext fr s] obtain t1 where
    t1: "calls (dispatch ext fr s) = calls s @ t1" by blast
  from Cons.IH [of "dispatch ext fr s"] obtain t2 where
    "calls (run_frames ext frs (dispatch ext fr s)) = calls (dispatch ext fr s) @ t2" by blast
  with t1 have "calls (run_frames ext (fr # frs) s) = calls s @ (t1 @ t2)" by simp
  then show ?case by blast
qed

lemma run_frames_append:
  "run_frames ext (xs @ ys) s = run_frames ext ys (run_frames ext xs s)"
  by (induction xs arbitrary: s) simp_all

lemma run_heatmaps_positions:
  "list_all is_heatmap_frame frs \<Longrightarrow>
     position_updates (calls (run_frames ext frs s)) = position_updates (calls s)"
proof (induction frs arbitrary: s)
  case Nil
  then show ?case by simp
next
  case (Cons fr frs)
  then obtain hm where "fr = Heatmap_frame hm"
    by (cases fr) simp_all
  with Cons show ?case
    by (simp add: process_heatmap_positions)
qed

lemma process_stylus_positions:
  "position_updates (calls (process_stylus ext st s)) =
     position_updates (calls s) @ [stylus_physical (m_config s) st]"
  by (simp add: process_stylus_def Let_def position_updates_append)

lemma process_heatmap_config: "m_config (process_heatmap ext hm s) = m_config s"
  by (simp add: process_heatmap_def Let_def update_touch_cone_config)

lemma dispatch_config: "m_config (dispatch ext fr s) = m_config s"
  by (cases fr) (simp_all add: process_heatmap_config process_stylus_def process_dft_def Let_def)

lemma run_frames_config: "m_config (run_frames ext frs s) = m_config s"
  by (induction frs arbitrary: s) (simp_all add: dispatch_config)

text \<open>
  Claim C7.  Suppose the buffer given to \<open>process\<close> decodes to frames among which a
  stylus frame precedes a heatmap frame.  Then the frames are handled one after the
  other in buffer order; when the handler of the heatmap frame starts, the cone has
  received the position update of the stylus frame, and that update is the last one it
  has received when only heatmap frames lie between the two (the cone is then the one
  the stylus frame left when the heatmap frame follows at once); and the frames after
  the heatmap frame only add calls after those of its handler, so the handler has seen
  nothing of them.
\<close>

theorem frames_in_order:
  assumes "parser_decode ext bytes = (pre @ Stylus_frame st # mid @ Heatmap_frame hm # post, bad)"
  shows "snd (process ext bytes s) =
           run_frames ext post
             (process_heatmap ext hm
               (run_frames ext mid (process_stylus ext st (run_frames ext pre s))))
       \<and> (\<exists>rest.
            position_updates
              (calls (run_frames ext mid (process_stylus ext st (run_frames ext pre s)))) =
              position_updates (calls (run_frames ext pre s))
                @ stylus_physical (m_config (run_frames ext pre s)) st # rest
            \<and> (list_all is_heatmap_frame mid \<longrightarrow> rest = []))
       \<and> (mid = [] \<longrightarrow>
            m_cone (run_frames ext mid (process_stylus ext st (run_frames ext pre s))) =
              cone_update_position ext (m_cone (run_frames ext pre s))
                (fst (stylus_physical (m_config (run_frames ext pre s)) st))
                (snd (stylus_physical (m_config (run_frames ext pre s)) st)))
       \<and> (\<exists>later. calls (snd (process ext bytes s)) =
             calls (process_heatmap ext hm
               (run_frames ext mid (process_stylus ext st (run_frames ext pre s)))) @ later)"
proof -
  let ?s1 = "run_frames ext pre s"
  let ?s2 = "process_stylus ext st ?s1"
  let ?s3 = "run_frames ext mid ?s2"
  let ?s4 = "process_heatmap ext hm ?s3"
  have run: "snd (process ext bytes s) = run_frames ext post ?s4"
    using assms
    by (simp add: process_def on_data_def Parser_parse_def Let_def run_frames_append)
  have s2: "position_updates (calls ?s2) =
      position_updates (calls ?s1) @ [stylus_physical (m_config ?s1) st]"
    by (rule process_stylus_positions)
  from run_frames_calls [of ext mid ?s2] obtain t where
    t: "calls ?s3 = calls ?s2 @ t" by blast
  then have s3: "position_updates (calls ?s3) =
      position_updates (calls ?s1) @ stylus_physical (m_config ?s1) st # position_updates t"
    by (simp add: position_updates_append s2)
  have only: "list_all is_heatmap_frame mid \<longrightarrow> position_updates t = []"
  proof
    assume "list_all is_heatmap_frame mid"
    then have "position_updates (calls ?s3) = position_updates (calls ?s2)"
      by (rule run_heatmaps_positions)
    with t show "position_updates t = []"
      by (simp add: position_updates_append)
  qed
  from s3 only have pos: "\<exists>rest.
      position_updates (calls ?s3) =
        position_updates (calls ?s1) @ stylus_physical (m_config ?s1) st # rest
      \<and> (list_all is_heatmap_frame mid \<longrightarrow> rest = [])"
    by blast
  have cone: "mid = [] \<longrightarrow> m_cone ?s3 =
      cone_update_position ext (m_cone ?s1)
        (fst (stylus_physical (m_config ?s1) st)) (snd (stylus_physical (m_config ?s1) st))"
    by (simp add: process_stylus_def Let_def)
  from run_frames_calls [of ext post ?s4] obtain later where
    "calls (run_frames ext post ?s4) = calls ?s4 @ later" by blast
  with run have grows: "\<exists>later. calls (snd (process ext bytes s)) = calls ?s4 @ later"
    by simp
  from run pos cone grows show ?thesis by blast
qed

text \<open>
  Claim C7 on a buffer of four sub-frames: stylus, heatmap, heatmap, stylus.  When the
  second heatmap frame is handled the cone has been moved once, by the first stylus
  frame; the second stylus frame moves it afterwards.
\<close>

theorem frames_in_order_witness:
  "parser_decode demo [3, 0, 0, 5] =
     ([] @ Stylus_frame (pen 3 3) # [frame_of_byte 0] @
        Heatmap_frame \<lparr> dim = \<lparr> dim_height = 1, dim_width = 1, z_min = 0, z_max = 255 \<rparr>,
                        data = [0] \<rparr> # [Stylus_frame (pen 5 5)], False)
   \<and> list_all is_heatmap_frame [frame_of_byte 0 :: stylus_data frame]
   \<and> position_updates
        (calls (run_frames demo [frame_of_byte 0]
                 (process_stylus demo (pen 3 3) (run_frames demo [] (demo_app False))))) =
        [(Finite (13 / 16), Finite (173 / 240))]
   \<and> position_updates (calls (snd (process demo [3, 0, 0, 5] (demo_app False)))) =
        [(Finite (13 / 16), Finite (173 / 240)), (Finite (65 / 48), Finite (173 / 144))]"
proof -
  let ?hm = "\<lparr> dim = \<lparr> dim_height = 1, dim_width = 1, z_min = 0, z_max = 255 \<rparr>,
               data = [0] \<rparr> :: heatmap"
  let ?s3 = "run_frames demo [frame_of_byte 0]
               (process_stylus demo (pen 3 3) (run_frames demo [] (demo_app False)))"
  have dec: "parser_decode demo [3, 0, 0, 5] =
     ([] @ Stylus_frame (pen 3 3) # [frame_of_byte 0] @ Heatmap_frame ?hm
        # [Stylus_frame (pen 5 5)], False)"
    by (simp add: demo_def frame_of_byte_def)
  have mid: "list_all is_heatmap_frame [frame_of_byte 0 :: stylus_data frame]"
    by (simp add: frame_of_byte_def)
  have cfg: "stylus_physical demo_config (pen 3 3) = (Finite (13 / 16), Finite (173 / 240))"
    "stylus_physical demo_config (pen 5 5) = (Finite (65 / 48), Finite (173 / 144))"
    by (simp_all add: stylus_physical_def demo_config_def pen_def f64_of_nat_def f64_of_int_def
          IPTS_MAX_X_def IPTS_MAX_Y_def)
  note inst = frames_in_order [OF dec, of "demo_app False"]
  from inst mid obtain rest where
    "position_updates (calls ?s3) =
       position_updates (calls (run_frames demo [] (demo_app False)))
         @ stylus_physical (m_config (run_frames demo [] (demo_app False))) (pen 3 3) # rest"
    and "rest = []"
    by blast
  then have p1: "position_updates (calls ?s3) = [(Finite (13 / 16), Finite (173 / 240))]"
    by (simp add: cfg demo_app_def)
  have p2: "position_updates (calls (snd (process demo [3, 0, 0, 5] (demo_app False)))) =
        [(Finite (13 / 16), Finite (173 / 240)), (Finite (65 / 48), Finite (173 / 144))]"
  proof -
    from inst have "snd (process demo [3, 0, 0, 5] (demo_app False)) =
        run_frames demo [Stylus_frame (pen 5 5)] (process_heatmap demo ?hm ?s3)"
      by blast
    moreover have "m_config (process_heatmap demo ?hm ?s3) = demo_config"
      by (simp add: process_heatmap_config run_frames_config dispatch_config
            process_stylus_def demo_app_def Let_def del: run_frames.simps dispatch.simps)
    moreover have "run_frames demo [Stylus_frame (pen 5 5)] (process_heatmap demo ?hm ?s3) =
        process_stylus demo (pen 5 5) (process_heatmap demo ?hm ?s3)"
      by simp
    ultimately show ?thesis
      using p1
      by (simp add: process_stylus_positions process_heatmap_positions cfg
            del: run_frames.simps)
  qed
  from dec mid p1 p2 show ?thesis by blast
qed


section \<open>Construction\<close>

lemma switch_stylus_empty:
  "styli dm = [] \<Longrightarrow> switch_stylus sn dm = Inr (create_stylus sn dm)"
  by (simp add: switch_stylus_def)

text \<open>
  Claim C2.  The constructor of the application throws its size error exactly when the
  configured width or height is zero, and otherwise returns the application; the
  constructor of the device manager throws its size error exactly when the configured
  width or height is zero, and otherwise returns the manager.
\<close>

theorem zero_size_rejected:
  "(Application_ctor ext cfg = Inl (Runtime_error ''Invalid config: The screen size is 0!'')
      \<longleftrightarrow> f64_is_zero (width cfg) \<or> f64_is_zero (height cfg))
   \<and> (isl (Application_ctor ext cfg)
      \<longleftrightarrow> f64_is_zero (width cfg) \<or> f64_is_zero (height cfg))
   \<and> (DeviceManager_ctor conf = Inl (Runtime_error ''Display size is 0'')
      \<longleftrightarrow> conf_width conf = 0 \<or> conf_height conf = 0)
   \<and> (isl (DeviceManager_ctor conf)
      \<longleftrightarrow> conf_width conf = 0 \<or> conf_height conf = 0)"
  by (simp add: Application_ctor_def DeviceManager_ctor_def Let_def switch_stylus_empty)


section \<open>The resolution advertised for an axis\<close>

lemma cpp_round_bound:
  assumes "\<bar>q\<bar> \<le> real_of_int n"
  shows "\<bar>cpp_round q\<bar> \<le> n"
proof (cases "0 \<le> q")
  case True
  then have "0 \<le> \<lfloor>q + 1 / 2\<rfloor>" by simp
  moreover have "\<lfloor>q + 1 / 2\<rfloor> \<le> n"
  proof -
    from assms True have "q + 1 / 2 < real_of_int (n + 1)" by simp
    then have "\<lfloor>q + 1 / 2\<rfloor> < n + 1" by (rule floor_less_iff [THEN iffD2])
    then show ?thesis by simp
  qed
  ultimately show ?thesis using True by (simp add: cpp_round_def)
next
  case False
  then have "\<lceil>q - 1 / 2\<rceil> \<le> 0" by (simp add: ceiling_le_iff)
  moreover have "- n \<le> \<lceil>q - 1 / 2\<rceil>"
  proof -
    from assms False have "real_of_int (- n - 1) < q - 1 / 2" by simp
    then have "- n - 1 < \<lceil>q - 1 / 2\<rceil>" by (rule less_ceiling_iff [THEN iffD2])
    then show ?thesis by simp
  qed
  ultimately show ?thesis using False by (simp add: cpp_round_def)
qed

lemma quotient_bound:
  fixes a b :: int
  assumes "b \<noteq> 0"
  shows "\<bar>real_of_int a / real_of_int b\<bar> \<le> real_of_int \<bar>a\<bar>"
proof -
  from assms have "1 \<le> \<bar>real_of_int b\<bar>"
    by (metis abs_ge_zero abs_zero int_one_le_iff_zero_less linorder_neqE_linordered_idom
        of_int_1_le_iff of_int_abs zero_less_abs_iff)
  then have "\<bar>real_of_int a\<bar> / \<bar>real_of_int b\<bar> \<le> \<bar>real_of_int a\<bar> / 1"
    by (intro divide_left_mono) simp_all
  then show ?thesis by (simp add: abs_divide)
qed

lemma i32_times_ten:
  assumes "i32_range (v * 10)"
  shows "\<bar>v * 10\<bar> < 2 ^ 31"
proof -
  from assms have "- 2147483648 \<le> v * 10" and "v * 10 < 2147483648"
    by (simp_all add: i32_range_def)
  then have "\<bar>v * 10\<bar> < 2147483648" by presburger
  then show ?thesis by simp
qed

lemma res_defined:
  assumes "phys \<noteq> 0" "i32_range (virt * 10)"
  shows "res virt phys = Some (cpp_round (real_of_int (virt * 10) / real_of_int phys))"
proof -
  let ?q = "real_of_int (virt * 10) / real_of_int phys"
  from quotient_bound [OF assms(1)] have "\<bar>?q\<bar> \<le> real_of_int \<bar>virt * 10\<bar>" .
  then have "\<bar>cpp_round ?q\<bar> \<le> \<bar>virt * 10\<bar>" by (rule cpp_round_bound)
  with i32_times_ten [OF assms(2)] have "\<bar>cpp_round ?q\<bar> < 2 ^ 31" by linarith
  then have "i32_range (cpp_round ?q)" by (simp add: i32_range_def abs_less_iff)
  with assms show ?thesis
    by (simp add: res_def f64_of_int_def)
qed

lemma cpp_round_examples: "cpp_round (96000 / 2600) = 37" "cpp_round (72000 / 1730) = 42"
  "cpp_round (- 5 / 2) = - 3" "cpp_round (5 / 2) = 3"
  by (simp_all add: cpp_round_def floor_eq_iff ceiling_eq_iff)

text \<open>
  Claim C8.  For a physical extent other than zero, and a virtual range whose tenfold
  is an \<open>i32\<close>, \<open>res\<close> is \<open>(virt * 10) / phys\<close> rounded to the nearest integer,
  halves away from zero.  The stylus device advertises \<open>res(IPTS_MAX_X, width)\<close> and
  \<open>res(IPTS_MAX_Y, height)\<close> on \<open>ABS_X\<close> and \<open>ABS_Y\<close>; the touch device advertises
  them on \<open>ABS_MT_POSITION_X\<close>, \<open>ABS_MT_POSITION_Y\<close>, \<open>ABS_X\<close> and \<open>ABS_Y\<close>.
\<close>

theorem resolution_advertised:
  "(phys \<noteq> 0 \<and> i32_range (virt * 10) \<longrightarrow>
      res virt phys = Some (cpp_round (real_of_int (virt * 10) / real_of_int phys)))
   \<and> stylus_abs (StylusDevice_ctor conf) ABS_X =
       Some \<lparr> abs_minimum = 0, abs_maximum = IPTS_MAX_X,
              abs_resolution = res IPTS_MAX_X (conf_width conf) \<rparr>
   \<and> stylus_abs (StylusDevice_ctor conf) ABS_Y =
       Some \<lparr> abs_minimum = 0, abs_maximum = IPTS_MAX_Y,
              abs_resolution = res IPTS_MAX_Y (conf_height conf) \<rparr>
   \<and> touch_abs (TouchDevice_ctor conf) ABS_MT_POSITION_X =
       Some \<lparr> abs_minimum = 0, abs_maximum = IPTS_MAX_X,
              abs_resolution = res IPTS_MAX_X (conf_width conf) \<rparr>
   \<and> touch_abs (TouchDevice_ctor conf) ABS_MT_POSITION_Y =
       Some \<lparr> abs_minimum = 0, abs_maximum = IPTS_MAX_Y,
              abs_resolution = res IPTS_MAX_Y (conf_height conf) \<rparr>
   \<and> touch_abs (TouchDevice_ctor conf) ABS_X =
       Some \<lparr> abs_minimum = 0, abs_maximum = IPTS_MAX_X,
              abs_resolution = res IPTS_MAX_X (conf_width conf) \<rparr>
   \<and> touch_abs (TouchDevice_ctor conf) ABS_Y =
       Some \<lparr> abs_minimum = 0, abs_maximum = IPTS_MAX_Y,
              abs_resolution = res IPTS_MAX_Y (conf_height conf) \<rparr>"
proof -
  have r: "phys \<noteq> 0 \<and> i32_range (virt * 10) \<longrightarrow>
      res virt phys = Some (cpp_round (real_of_int (virt * 10) / real_of_int phys))"
    using res_defined by blast
  have s: "stylus_abs (StylusDevice_ctor conf) ABS_X =
       Some \<lparr> abs_minimum = 0, abs_maximum = IPTS_MAX_X,
              abs_resolution = res IPTS_MAX_X (conf_width conf) \<rparr>"
    "stylus_abs (StylusDevice_ctor conf) ABS_Y =
       Some \<lparr> abs_minimum = 0, abs_maximum = IPTS_MAX_Y,
              abs_resolution = res IPTS_MAX_Y (conf_height conf) \<rparr>"
    by (simp_all add: StylusDevice_ctor_def set_absinfo_def Let_def)
  have t: "touch_abs (TouchDevice_ctor conf) ABS_MT_POSITION_X =
       Some \<lparr> abs_minimum = 0, abs_maximum = IPTS_MAX_X,
              abs_resolution = res IPTS_MAX_X (conf_width conf) \<rparr>"
    "touch_abs (TouchDevice_ctor conf) ABS_MT_POSITION_Y =
       Some \<lparr> abs_minimum = 0, abs_maximum = IPTS_MAX_Y,
              abs_resolution = res IPTS_MAX_Y (conf_height conf) \<rparr>"
    "touch_abs (TouchDevice_ctor conf) ABS_X =
       Some \<lparr> abs_minimum = 0, abs_maximum = IPTS_MAX_X,
              abs_resolution = res IPTS_MAX_X (conf_width conf) \<rparr>"
    "touch_abs (TouchDevice_ctor conf) ABS_Y =
       Some \<lparr> abs_minimum = 0, abs_maximum = IPTS_MAX_Y,
              abs_resolution = res IPTS_MAX_Y (conf_height conf) \<rparr>"
    by (simp_all add: TouchDevice_ctor_def set_absinfo_def Let_def)
  from r s t show ?thesis by blast
qed

text \<open>
  Claim C8 at a screen 2600 tenths of a millimetre wide: \<open>96000 / 2600\<close> is rounded to
  37, which the stylus device advertises on \<open>ABS_X\<close>.
\<close>

theorem resolution_advertised_witness:
  "(2600::int) \<noteq> 0 \<and> i32_range (9600 * 10) \<and> res 9600 2600 = Some 37
   \<and> abs_resolution (the (stylus_abs
        (StylusDevice_ctor \<lparr> conf_width = 2600, conf_height = 1730, max_contacts = 10 \<rparr>)
        ABS_X)) = Some 37"
proof -
  have h: "(2600::int) \<noteq> 0 \<and> i32_range (9600 * 10)"
    by (simp add: i32_range_def)
  from resolution_advertised
         [of 2600 9600 "\<lparr> conf_width = 2600, conf_height = 1730, max_contacts = 10 \<rparr>"] h
  show ?thesis
    by (simp add: cpp_round_def floor_eq_iff IPTS_MAX_X_def)
qed


section \<open>Switching the active stylus\<close>

lemma find_serial_None:
  "find_serial sn ds i = None \<longleftrightarrow> sn \<notin> stylus_serial ` set ds"
  by (induction ds arbitrary: i) auto

lemma find_serial_Some:
  "find_serial sn ds i = Some j \<Longrightarrow>
     i \<le> j \<and> j - i < length ds \<and> stylus_serial (ds ! (j - i)) = sn
     \<and> (\<forall>n < j - i. stylus_serial (ds ! n) \<noteq> sn)"
proof (induction ds arbitrary: i)
  case Nil
  then show ?case by simp
next
  case (Cons d ds)
  show ?case
  proof (cases "stylus_serial d = sn")
    case True
    with Cons.prems show ?thesis by simp
  next
    case False
    with Cons.prems have "find_serial sn ds (Suc i) = Some j" by simp
    from Cons.IH [OF this] have ih: "Suc i \<le> j" "j - Suc i < length ds"
      "stylus_serial (ds ! (j - Suc i)) = sn"
      "\<forall>n < j - Suc i. stylus_serial (ds ! n) \<noteq> sn"
      by simp_all
    from ih(1) have eq: "j - i = Suc (j - Suc i)" by simp
    have "\<forall>n < j - i. stylus_serial ((d # ds) ! n) \<noteq> sn"
    proof (intro allI impI)
      fix n assume "n < j - i"
      then show "stylus_serial ((d # ds) ! n) \<noteq> sn"
        using False ih(4) eq by (cases n) simp_all
    qed
    with ih eq show ?thesis by simp
  qed
qed

lemma DeviceManager_ctor_active:
  assumes "DeviceManager_ctor conf = Inr dm"
  shows "active_in_styli dm \<and> active_stylus dm = Some 0
         \<and> map stylus_serial (styli dm) = [0]"
proof -
  from assms have "conf_width conf \<noteq> 0 \<and> conf_height conf \<noteq> 0"
    by (auto simp add: DeviceManager_ctor_def Let_def split: if_splits)
  with assms have "dm = create_stylus 0
      \<lparr> dm_conf = conf, touch = TouchDevice_ctor conf, styli = [], active_stylus = None \<rparr>"
    by (simp add: DeviceManager_ctor_def Let_def switch_stylus_empty)
  then show ?thesis
    by (simp add: create_stylus_def active_in_styli_def)
qed

text \<open>
  Claim C10.  On a manager whose active pointer names one of its devices (as it does
  from the constructor on), \<open>switch_stylus\<close> returns with an active device whose
  serial is the argument.  If a device with that serial exists, the first such device
  becomes active and the devices are unchanged.  If none exists and the active device
  has serial 0, that device is given the serial and stays active, and no device is
  created.  Otherwise a new device with the serial is appended and made active.
\<close>

theorem switch_stylus_active:
  assumes "active_in_styli dm"
  shows "\<exists>dm' a. switch_stylus sn dm = Inr dm'
          \<and> active_stylus dm' = Some a \<and> a < length (styli dm')
          \<and> stylus_serial (styli dm' ! a) = sn
          \<and> (sn \<in> stylus_serial ` set (styli dm) \<longrightarrow>
                styli dm' = styli dm
                \<and> (\<forall>n < a. stylus_serial (styli dm ! n) \<noteq> sn))
          \<and> (sn \<notin> stylus_serial ` set (styli dm)
               \<and> (\<exists>b. active_stylus dm = Some b \<and> stylus_serial (styli dm ! b) = 0) \<longrightarrow>
                active_stylus dm' = active_stylus dm
                \<and> styli dm' = (styli dm)[a := (styli dm ! a)\<lparr>stylus_serial := sn\<rparr>])
          \<and> (sn \<notin> stylus_serial ` set (styli dm)
               \<and> \<not> (\<exists>b. active_stylus dm = Some b \<and> stylus_serial (styli dm ! b) = 0) \<longrightarrow>
                a = length (styli dm)
                \<and> styli dm' = styli dm @ [(StylusDevice_ctor (dm_conf dm))\<lparr>stylus_serial := sn\<rparr>])"
proof (cases "find_serial sn (styli dm) 0")
  case (Some j)
  from find_serial_Some [OF Some] have j: "j < length (styli dm)"
    "stylus_serial (styli dm ! j) = sn" "\<forall>n < j. stylus_serial (styli dm ! n) \<noteq> sn"
    by simp_all
  from Some have mem: "sn \<in> stylus_serial ` set (styli dm)"
    using find_serial_None [of sn "styli dm" 0] by simp
  have "switch_stylus sn dm = Inr (dm\<lparr>active_stylus := Some j\<rparr>)"
    using Some by (simp add: switch_stylus_def)
  with j mem show ?thesis by simp
next
  case None
  then have nomem: "sn \<notin> stylus_serial ` set (styli dm)"
    by (simp add: find_serial_None)
  show ?thesis
  proof (cases "styli dm = []")
    case True
    with assms have "active_stylus dm = None"
      by (simp add: active_in_styli_def split: option.splits)
    moreover from True have "switch_stylus sn dm = Inr (create_stylus sn dm)"
      by (simp add: switch_stylus_def)
    ultimately show ?thesis
      using nomem True by (simp add: create_stylus_def)
  next
    case False
    with assms obtain b where b: "active_stylus dm = Some b" "b < length (styli dm)"
      by (auto simp add: active_in_styli_def split: option.splits)
    show ?thesis
    proof (cases "stylus_serial (styli dm ! b) = 0")
      case True
      with None False b have
        "switch_stylus sn dm =
           Inr (dm\<lparr>styli := (styli dm)[b := (styli dm ! b)\<lparr>stylus_serial := sn\<rparr>]\<rparr>)"
        by (simp add: switch_stylus_def)
      with nomem b True show ?thesis by simp
    next
      case nz: False
      with None False b have "switch_stylus sn dm = Inr (create_stylus sn dm)"
        by (simp add: switch_stylus_def)
      with nomem b nz show ?thesis by (simp add: create_stylus_def)
    qed
  qed
qed

text \<open>
  Claim C10 on the manager the constructor builds: switching to serial 7 renames the
  only device, switching to serial 0 finds it.
\<close>

theorem switch_stylus_active_witness:
  "active_in_styli demo_manager
   \<and> DeviceManager_ctor demo_conf = Inr demo_manager
   \<and> (\<exists>dm'. switch_stylus 7 demo_manager = Inr dm'
          \<and> active_stylus dm' = Some 0
          \<and> map stylus_serial (styli dm') = [7])
   \<and> (\<exists>dm'. switch_stylus 0 demo_manager = Inr dm'
          \<and> active_stylus dm' = Some 0
          \<and> map stylus_serial (styli dm') = [0])"
proof -
  have h: "active_in_styli demo_manager"
    by (simp add: demo_manager_def create_stylus_def active_in_styli_def)
  have c: "DeviceManager_ctor demo_conf = Inr demo_manager"
    by (simp add: DeviceManager_ctor_def demo_manager_def demo_conf_def switch_stylus_empty)
  have s: "map stylus_serial (styli demo_manager) = [0]" "active_stylus demo_manager = Some 0"
    by (simp_all add: demo_manager_def create_stylus_def)
  from switch_stylus_active [OF h, of 7] obtain dm' a where
    r: "switch_stylus 7 demo_manager = Inr dm'" "active_stylus dm' = Some a"
       "a < length (styli dm')" "stylus_serial (styli dm' ! a) = 7"
       "7 \<notin> stylus_serial ` set (styli demo_manager)
         \<and> (\<exists>b. active_stylus demo_manager = Some b
                   \<and> stylus_serial (styli demo_manager ! b) = 0) \<longrightarrow>
            active_stylus dm' = active_stylus demo_manager
            \<and> styli dm' = (styli demo_manager)[a := (styli demo_manager ! a)\<lparr>stylus_serial := 7\<rparr>]"
    by blast
  have pre: "7 \<notin> stylus_serial ` set (styli demo_manager)
         \<and> (\<exists>b. active_stylus demo_manager = Some b
                   \<and> stylus_serial (styli demo_manager ! b) = 0)"
    by (simp add: demo_manager_def create_stylus_def)
  with r(5) have upd: "active_stylus dm' = Some 0"
    "styli dm' = (styli demo_manager)[a := (styli demo_manager ! a)\<lparr>stylus_serial := 7\<rparr>]"
    by (simp_all add: s)
  with r(2) have "a = 0" by simp
  moreover from upd(2) have
    "map stylus_serial (styli dm') = (map stylus_serial (styli demo_manager))[a := 7]"
    by (simp add: map_update)
  ultimately have "map stylus_serial (styli dm') = [7]"
    by (simp add: s(1))
  with r(1) upd(1) have seven: "\<exists>dm'. switch_stylus 7 demo_manager = Inr dm'
          \<and> active_stylus dm' = Some 0 \<and> map stylus_serial (styli dm') = [7]"
    by auto
  have zero: "\<exists>dm'. switch_stylus 0 demo_manager = Inr dm'
          \<and> active_stylus dm' = Some 0 \<and> map stylus_serial (styli dm') = [0]"
    by (simp add: switch_stylus_def demo_manager_def create_stylus_def)
  from h c seven zero show ?thesis by blast
qed


section \<open>The error counter of the read loop\<close>

lemma read_loop_no_touch_data:
  "read_loop (No_touch_data # ts) errors =
     (if 50 \<le> errors then Aborted errors else read_loop ts errors)"
  by simp

lemma read_loop_parsed:
  "read_loop (Parsed # ts) errors =
     (if 50 \<le> errors then Aborted errors else read_loop ts 0)"
  by simp

text \<open>
  Claim C9 (not met by the code).  Forty-nine throwing turns, a report without touch
  data, one more throwing turn: the loop aborts at the next turn with \<open>errors = 50\<close>,
  although no more than 49 turns in a row have thrown.  The turn without touch data
  leaves the loop by \<open>continue\<close> before \<open>errors = 0\<close> is reached.  With a parsed report
  in its place the counter is reset and the loop goes on.
\<close>

theorem read_loop_aborts_without_fifty_in_a_row:
  "read_loop (replicate 49 Throws @ [No_touch_data, Throws, Parsed]) 0 = Aborted 50
   \<and> longest_run (replicate 49 Throws @ [No_touch_data, Throws, Parsed]) 0 0 = 49
   \<and> read_loop (replicate 49 Throws @ [Parsed, Throws, Parsed]) 0 = Running 0"
  by code_simp

end
